theory Spec2Isabelle
  imports Complex_Main
begin

section \<open>Data model of NewPDFCanvasViewer.tsx\<close>

text \<open>
  The component keeps four pieces of React state: the polygon being drawn, the list of
  zones, the undo stack (\<open>history\<close>) and the redo stack. A zone is a list of rings (index 0
  the outer ring, the rest holes), a ring a list of points.

  JavaScript numbers are modelled as real numbers: rounding of the floating-point
  operations and the infinities are outside the model, and NaN occurs only as the
  distance to a garbled point (see below), where the scan accounts for it. The fields \<open>x\<close> and \<open>y\<close> of the
  interface \<open>Point\<close> are called \<open>px\<close> and \<open>py\<close>, since a record field is a global constant.
\<close>

record Point =
  px :: real
  py :: real

type_synonym Ring = "Point list"

text \<open>A GeoJSON position \<open>[x, y]\<close> and a linear ring of positions.\<close>

type_synonym Position = "real \<times> real"
type_synonym Coords = "Position list"

text \<open>
  The static type of a zone is \<open>Point[][]\<close>, but the type is erased when the program runs,
  and one path of \<open>handleClosePolygon\<close> stores objects whose \<open>x\<close> and \<open>y\<close> are not numbers:
  the \<open>difference\<close> of the library returns a Polygon or a MultiPolygon, the source casts
  the result to a Polygon, and on a MultiPolygon the pattern \<open>[x, y]\<close> that is meant to
  take a position apart takes a ring apart. Then \<open>x\<close> is the first position of the ring and
  \<open>y\<close> the second (\<open>undefined\<close>, here \<open>None\<close>, where the ring is that short). A zone is
  therefore either a list of rings of points, or such a list of lists of garbled points
  (fields \<open>gx\<close>, \<open>gy\<close>).
\<close>

record GarbledPoint =
  gx :: "Position option"
  gy :: "Position option"

datatype Zone = Rings "Ring list" | Garbled "GarbledPoint list list"

type_synonym ZoneSet = "Zone list"

record State =
  currentPolygon :: Ring
  zones :: ZoneSet
  history :: "ZoneSet list"
  redoStack :: "ZoneSet list"

text \<open>
  What a handler can throw: a \<open>TypeError\<close> of the language (reading a property of
  \<open>undefined\<close>), or whatever a function of the polygon library throws.
\<close>

datatype error = TypeError | LibraryError string

text \<open>
  The four functions imported from \<open>@turf\<close> are not part of the repository; the handlers
  take them as a parameter. \<open>'f\<close> is the type of a polygon feature. Each call may throw.
  \<open>difference\<close> returns \<open>null\<close> (\<open>None\<close>) or a feature, of which the handler reads
  \<open>geometry.coordinates\<close> only: the list of rings of a Polygon, or the list of polygons
  (each a list of rings) of a MultiPolygon, which is what the library returns when more
  than one piece is left.
\<close>

datatype Clipped = Polygon "Coords list" | MultiPolygon "Coords list list"

record 'f Turf =
  turfPolygon :: "Coords list \<Rightarrow> error + 'f"
  booleanContains :: "'f \<Rightarrow> 'f \<Rightarrow> error + bool"
  booleanIntersects :: "'f \<Rightarrow> 'f \<Rightarrow> error + bool"
  difference :: "'f \<Rightarrow> 'f \<Rightarrow> error + Clipped option"

section \<open>Geometry helpers\<close>

definition SNAP_THRESHOLD :: real where
  "SNAP_THRESHOLD = 10"

definition isCloseToStart :: "Point \<Rightarrow> Point \<Rightarrow> bool" where
  "isCloseToStart start current =
     (let dx = px start - px current; dy = py start - py current
      in sqrt (dx * dx + dy * dy) < 10)"

definition distance :: "Point \<Rightarrow> Point \<Rightarrow> real" where
  "distance a b = sqrt ((px a - px b) ^ 2 + (py a - py b) ^ 2)"

text \<open>
  The three nested loops of \<open>getSnappedPoint\<close>, innermost first. The loop state is the
  pair of the locals \<open>nearest\<close> and \<open>minDist\<close>. On a garbled zone the two inner loops run
  as well, but \<open>distance\<close> subtracts an array of two numbers (or \<open>undefined\<close>) from a number,
  which is NaN, and \<open>NaN < minDist\<close> is false for every vertex: the loop state comes out as
  it went in.
\<close>

fun scanRing :: "Point \<Rightarrow> Ring \<Rightarrow> Point option \<times> real \<Rightarrow> Point option \<times> real" where
  "scanRing point [] st = st"
| "scanRing point (vertex # rest) (nearest, minDist) =
     (let d = distance point vertex
      in if d < minDist then scanRing point rest (Some vertex, d)
         else scanRing point rest (nearest, minDist))"

fun scanRings :: "Point \<Rightarrow> Ring list \<Rightarrow> Point option \<times> real \<Rightarrow> Point option \<times> real" where
  "scanRings point [] st = st"
| "scanRings point (ring # rest) st = scanRings point rest (scanRing point ring st)"

fun scanZone :: "Point \<Rightarrow> Zone \<Rightarrow> Point option \<times> real \<Rightarrow> Point option \<times> real" where
  "scanZone point (Rings rs) st = scanRings point rs st"
| "scanZone point (Garbled g) st = st"

fun scanZones :: "Point \<Rightarrow> ZoneSet \<Rightarrow> Point option \<times> real \<Rightarrow> Point option \<times> real" where
  "scanZones point [] st = st"
| "scanZones point (zone # rest) st = scanZones point rest (scanZone point zone st)"

text \<open>The rings whose vertices the scan compares: none in a garbled zone.\<close>

fun zoneRings :: "Zone \<Rightarrow> Ring list" where
  "zoneRings (Rings rs) = rs"
| "zoneRings (Garbled g) = []"

text \<open>\<open>length || 1\<close> replaces a length of 0 by 1.\<close>

definition getSnappedPoint :: "ZoneSet \<Rightarrow> Point \<Rightarrow> Point" where
  "getSnappedPoint zs point =
     (case fst (scanZones point zs (None, SNAP_THRESHOLD)) of
        Some nearest \<Rightarrow>
          (let dx = px point - px nearest;
               dy = py point - py nearest;
               len = (if sqrt (dx * dx + dy * dy) = 0 then 1 else sqrt (dx * dx + dy * dy));
               offset = 1
           in \<lparr> px = px nearest + (dx / len) * offset,
                py = py nearest + (dy / len) * offset \<rparr>)
      | None \<Rightarrow> point)"

section \<open>Ring normalisation\<close>

text \<open>
  \<open>+v.toFixed(2)\<close>: \<open>toFixed\<close> prints the decimal with two fraction digits nearest to the
  number, the one larger in magnitude of two equally near, and prints a number of
  magnitude \<open>10^21\<close> or more as it is; unary plus reads the decimal back.
\<close>

definition toFixed2 :: "real \<Rightarrow> real" where
  "toFixed2 v =
     (if \<bar>v\<bar> \<ge> 10 ^ 21 then v
      else sgn v * (of_int \<lfloor>\<bar>v\<bar> * 100 + 1 / 2\<rfloor> / 100))"

text \<open>\<open>(p) => [+p.x.toFixed(2), +p.y.toFixed(2)]\<close> and \<open>([x, y]) => ({ x, y })\<close>.\<close>

definition flat :: "Point \<Rightarrow> Position" where
  "flat p = (toFixed2 (px p), toFixed2 (py p))"

definition unflat :: "Position \<Rightarrow> Point" where
  "unflat c = \<lparr> px = fst c, py = snd c \<rparr>"

text \<open>
  \<open>if (first[0] !== last[0] || first[1] !== last[1]) coords.push([...first])\<close>, on a list
  that is not empty.
\<close>

definition closeRing :: "Coords \<Rightarrow> Coords" where
  "closeRing cs =
     (if fst (hd cs) \<noteq> fst (last cs) \<or> snd (hd cs) \<noteq> snd (last cs) then cs @ [hd cs] else cs)"

section \<open>Closing a polygon\<close>

text \<open>
  \<open>([x, y]) => ({ x, y })\<close> applied to a ring instead of a position: the first two
  elements of the ring.
\<close>

definition garble :: "Coords \<Rightarrow> GarbledPoint" where
  "garble ring =
     \<lparr> gx = (case ring of [] \<Rightarrow> None | a # _ \<Rightarrow> Some a),
       gy = (case ring of a # b # _ \<Rightarrow> Some b | _ \<Rightarrow> None) \<rparr>"

text \<open>
  The body of the loop \<open>for (let zone of zones)\<close> of \<open>handleClosePolygon\<close>. The loop state
  is the pair of the locals \<open>updatedZones\<close> and \<open>overlapHandled\<close>. \<open>zone[0]\<close> of an empty zone
  is \<open>undefined\<close>, and so is \<open>flatOuter[0]\<close> of an empty outer ring: reading a property of it
  throws. On a garbled zone the first statement throws as well: \<open>p.x\<close> is an array or
  \<open>undefined\<close> and has no method \<open>toFixed\<close> (and where the zone or its first list is empty,
  the zone is as an empty zone or an empty outer ring).

  The test \<open>clipped?.geometry?.coordinates.length\<close> fails on \<open>null\<close> and on an empty
  list of coordinates. Otherwise every element of the coordinates is mapped with
  \<open>(ring) => ring.map(([x, y]) => ({ x, y }))\<close> and the results are pushed as one zone:
  for a Polygon the elements are rings and the zone is made of rings of points; for a
  MultiPolygon the elements are polygons and the zone is garbled.
\<close>

definition mergeZone ::
  "'f Turf \<Rightarrow> 'f \<Rightarrow> Coords \<Rightarrow> Zone \<Rightarrow> ZoneSet \<times> bool \<Rightarrow> error + ZoneSet \<times> bool" where
  "mergeZone lib newTurf coords zone st =
     (case zone of
        Garbled g \<Rightarrow> Inl TypeError
      | Rings [] \<Rightarrow> Inl TypeError
      | Rings (outer # holeRings) \<Rightarrow>
          if outer = [] then Inl TypeError
          else
            (let flatOuter = closeRing (map flat outer);
                 holes = map (map flat) holeRings
             in case turfPolygon lib (flatOuter # holes) of
                  Inl e \<Rightarrow> Inl e
                | Inr existingTurf \<Rightarrow>
                    (case booleanContains lib existingTurf newTurf of
                       Inl e \<Rightarrow> Inl e
                     | Inr True \<Rightarrow>
                         (let newHoles = holes @ [coords];
                              updatedZone = map unflat flatOuter # map (map unflat) newHoles
                          in Inr (fst st @ [Rings updatedZone], True))
                     | Inr False \<Rightarrow>
                         (case booleanIntersects lib existingTurf newTurf of
                            Inl e \<Rightarrow> Inl e
                          | Inr True \<Rightarrow>
                              (case difference lib existingTurf newTurf of
                                 Inl e \<Rightarrow> Inl e
                               | Inr None \<Rightarrow> Inr (fst st, True)
                               | Inr (Some (Polygon [])) \<Rightarrow> Inr (fst st, True)
                               | Inr (Some (Polygon (r # rs))) \<Rightarrow>
                                   Inr (fst st @ [Rings (map (map unflat) (r # rs))], True)
                               | Inr (Some (MultiPolygon [])) \<Rightarrow> Inr (fst st, True)
                               | Inr (Some (MultiPolygon (p # ps))) \<Rightarrow>
                                   Inr (fst st @ [Garbled (map (map garble) (p # ps))], True))
                          | Inr False \<Rightarrow> Inr (fst st @ [zone], snd st)))))"

fun mergeLoop ::
  "'f Turf \<Rightarrow> 'f \<Rightarrow> Coords \<Rightarrow> ZoneSet \<Rightarrow> ZoneSet \<times> bool \<Rightarrow> error + ZoneSet \<times> bool" where
  "mergeLoop lib newTurf coords [] st = Inr st"
| "mergeLoop lib newTurf coords (zone # rest) st =
     (case mergeZone lib newTurf coords zone st of
        Inl e \<Rightarrow> Inl e
      | Inr st' \<Rightarrow> mergeLoop lib newTurf coords rest st')"

text \<open>
  \<open>handleClosePolygon\<close>. With no point in the polygon, \<open>first\<close> is \<open>undefined\<close> and
  \<open>first[0]\<close> throws. The handler has no \<open>try\<close>: whatever is thrown leaves it, before any of
  the four state setters at its end is reached.
\<close>

definition handleClosePolygon :: "'f Turf \<Rightarrow> State \<Rightarrow> error + State" where
  "handleClosePolygon lib s =
     (if currentPolygon s = [] then Inl TypeError
      else
        (let coords = closeRing (map flat (currentPolygon s))
         in case turfPolygon lib [coords] of
              Inl e \<Rightarrow> Inl e
            | Inr newTurf \<Rightarrow>
                (case mergeLoop lib newTurf coords (zones s) ([], False) of
                   Inl e \<Rightarrow> Inl e
                 | Inr (updatedZones, overlapHandled) \<Rightarrow>
                     Inr \<lparr> currentPolygon = [],
                           zones = (if \<not> overlapHandled
                                    then updatedZones @ [Rings [currentPolygon s]]
                                    else updatedZones),
                           history = history s @ [zones s],
                           redoStack = [] \<rparr>)))"

text \<open>The double click closes a polygon of three points or more and does nothing else.\<close>

definition handleCanvasDoubleClick :: "'f Turf \<Rightarrow> State \<Rightarrow> error + State" where
  "handleCanvasDoubleClick lib s =
     (if length (currentPolygon s) \<ge> 3 then handleClosePolygon lib s else Inr s)"

text \<open>
  The click, given the point \<open>rawPoint\<close> it computes from the event and the canvas.
\<close>

definition handleCanvasClick :: "'f Turf \<Rightarrow> Point \<Rightarrow> State \<Rightarrow> error + State" where
  "handleCanvasClick lib rawPoint s =
     (let snapped = getSnappedPoint (zones s) rawPoint
      in if length (currentPolygon s) \<ge> 3 \<and> isCloseToStart (hd (currentPolygon s)) snapped
         then handleClosePolygon lib s
         else Inr (s\<lparr> currentPolygon := currentPolygon s @ [snapped] \<rparr>))"

section \<open>Undo and redo\<close>

definition handleUndo :: "State \<Rightarrow> State" where
  "handleUndo s =
     (if length (history s) = 0 then s
      else
        (let previous = last (history s)
         in s\<lparr> history := butlast (history s),
               redoStack := zones s # redoStack s,
               zones := previous \<rparr>))"

definition handleRedo :: "State \<Rightarrow> State" where
  "handleRedo s =
     (if length (redoStack s) = 0 then s
      else
        (let next = hd (redoStack s)
         in s\<lparr> redoStack := tl (redoStack s),
               history := history s @ [zones s],
               zones := next \<rparr>))"

section \<open>Worked examples: an instance of the polygon library and some states\<close>

definition pt :: "real \<Rightarrow> real \<Rightarrow> Point" where
  "pt a b = \<lparr> px = a, py = b \<rparr>"

text \<open>
  The examples run the handlers with the following instance of the library parameter. Its
  \<open>polygon\<close> checks the rings as the one of \<open>@turf/helpers\<close> does, ring by ring: a ring of
  fewer than four positions is refused, and so is one whose last position differs from its
  first. The three boolean operations read their answers (contains, intersects,
  coordinates of the difference) from a table indexed by the two polygons; each example
  states the table it uses, filled with the geometric facts about its polygons. Polygons
  absent from the table are disjoint.
\<close>

fun ringErrors :: "Coords list \<Rightarrow> error option" where
  "ringErrors [] = None"
| "ringErrors (r # rs) =
     (if length r < 4
      then Some (LibraryError ''Each LinearRing of a Polygon must have 4 or more Positions.'')
      else if last r \<noteq> hd r
      then Some (LibraryError ''First and last Position are not equivalent.'')
      else ringErrors rs)"

definition checkedPolygon :: "Coords list \<Rightarrow> error + Coords list" where
  "checkedPolygon rings = (case ringErrors rings of Some e \<Rightarrow> Inl e | None \<Rightarrow> Inr rings)"

type_synonym Answers =
  "((Coords list \<times> Coords list) \<times> bool \<times> bool \<times> Clipped option) list"

definition tableLib :: "Answers \<Rightarrow> Coords list Turf" where
  "tableLib t =
     \<lparr> turfPolygon = checkedPolygon,
       booleanContains =
         (\<lambda>a b. Inr (case map_of t (a, b) of Some r \<Rightarrow> fst r | None \<Rightarrow> False)),
       booleanIntersects =
         (\<lambda>a b. Inr (case map_of t (a, b) of Some r \<Rightarrow> fst (snd r) | None \<Rightarrow> False)),
       difference =
         (\<lambda>a b. Inr (case map_of t (a, b) of Some r \<Rightarrow> snd (snd r) | None \<Rightarrow> None)) \<rparr>"

text \<open>The library for polygons that are pairwise disjoint.\<close>

definition libDisjoint :: "Coords list Turf" where
  "libDisjoint = tableLib []"

text \<open>
  The squares of the scenario of the specification, as clicked (four points) and as closed
  coordinate lists (five positions), and a fourth square \<open>E\<close> away from them.
\<close>

definition squareA :: Ring where
  "squareA = [pt 0 0, pt 10 0, pt 10 10, pt 0 10]"

definition squareB :: Ring where
  "squareB = [pt 2 2, pt 4 2, pt 4 4, pt 2 4]"

definition squareC :: Ring where
  "squareC = [pt 20 20, pt 22 20, pt 22 22, pt 20 22]"

definition squareE :: Ring where
  "squareE = [pt 30 30, pt 32 30, pt 32 32, pt 30 32]"

definition closedA :: Coords where
  "closedA = [(0, 0), (10, 0), (10, 10), (0, 10), (0, 0)]"

definition closedB :: Coords where
  "closedB = [(2, 2), (4, 2), (4, 4), (2, 4), (2, 2)]"

text \<open>Square \<open>A\<close> is a zone, square \<open>B\<close>, inside \<open>A\<close>, has just been drawn.\<close>

definition libAB :: "Coords list Turf" where
  "libAB = tableLib [(([closedA], [closedB]), True, True, None)]"

definition stateAB :: State where
  "stateAB = \<lparr> currentPolygon = squareB, zones = [Rings [squareA]], history = [[]], redoStack = [] \<rparr>"

text \<open>
  The zone \<open>A\<close> with the hole \<open>B\<close>, as the containment branch stores it, and a strip drawn
  over the right edge of \<open>A\<close>, from \<open>x = 8\<close> to \<open>x = 12\<close>.
\<close>

definition zoneAB :: Zone where
  "zoneAB = Rings [map unflat closedA, map unflat closedB]"

definition strip :: Ring where
  "strip = [pt 8 (- 1), pt 12 (- 1), pt 12 11, pt 8 11]"

definition closedStrip :: Coords where
  "closedStrip = [(8, - 1), (12, - 1), (12, 11), (8, 11), (8, - 1)]"

definition stateStrip :: State where
  "stateStrip =
     \<lparr> currentPolygon = strip, zones = [zoneAB], history = [[], [Rings [squareA]]], redoStack = [] \<rparr>"

text \<open>
  The zones \<open>C\<close>, \<open>B\<close> and \<open>E\<close>, and the square \<open>A\<close> drawn over \<open>B\<close>: \<open>A\<close> covers \<open>B\<close>, so
  \<open>B\<close> does not contain \<open>A\<close>, meets it, and nothing of \<open>B\<close> is left (the library returns
  \<open>null\<close>). \<open>C\<close> and \<open>E\<close> are away from \<open>A\<close>.
\<close>

definition libCover :: "Coords list Turf" where
  "libCover = tableLib [(([closedB], [closedA]), False, True, None)]"

definition stateCover :: State where
  "stateCover =
     \<lparr> currentPolygon = squareA, zones = [Rings [squareC], Rings [squareB], Rings [squareE]],
       history = [], redoStack = [] \<rparr>"

text \<open>The zone \<open>A\<close> with the hole \<open>B\<close>, and the square \<open>C\<close> drawn away from it.\<close>

definition stateDisjoint :: State where
  "stateDisjoint =
     \<lparr> currentPolygon = squareC, zones = [zoneAB], history = [[], [Rings [squareA]]],
       redoStack = [] \<rparr>"

text \<open>
  A triangle is a zone; the rectangle drawn over it from \<open>x = 1\<close> to \<open>x = 8\<close> leaves the
  triangle's tip: the edge from \<open>(0, 0)\<close> to \<open>(7, 3)\<close> crosses \<open>x = 1\<close> at \<open>y = 3/7\<close>.
\<close>

definition triangle :: Ring where
  "triangle = [pt 0 0, pt 7 0, pt 7 3]"

definition closedTriangle :: Coords where
  "closedTriangle = [(0, 0), (7, 0), (7, 3), (0, 0)]"

definition cutter :: Ring where
  "cutter = [pt 1 (- 1), pt 8 (- 1), pt 8 4, pt 1 4]"

definition closedCutter :: Coords where
  "closedCutter = [(1, - 1), (8, - 1), (8, 4), (1, 4), (1, - 1)]"

definition tip :: Coords where
  "tip = [(0, 0), (1, 0), (1, 3 / 7), (0, 0)]"

definition libTriangle :: "Coords list Turf" where
  "libTriangle = tableLib [(([closedTriangle], [closedCutter]), False, True, Some (Polygon [tip]))]"

definition stateTriangle :: State where
  "stateTriangle =
     \<lparr> currentPolygon = cutter, zones = [Rings [triangle]], history = [[]], redoStack = [] \<rparr>"

text \<open>A first polygon whose points are not multiples of \<open>0.01\<close>.\<close>

definition rawTriangle :: Ring where
  "rawTriangle = [pt (1 / 3) 0, pt 5 0, pt 5 (5 / 3)]"

definition stateRaw :: State where
  "stateRaw = \<lparr> currentPolygon = rawTriangle, zones = [], history = [], redoStack = [] \<rparr>"

text \<open>
  Three clicks, the third on the first point again (with two points in the polygon a click
  near the start adds a point), before the double click that closes the polygon.
\<close>

definition stateDegenerate :: State where
  "stateDegenerate =
     \<lparr> currentPolygon = [pt 0 0, pt 10 0, pt 0 0], zones = [], history = [],
       redoStack = [] \<rparr>"

text \<open>
  A rectangle, the plot, is a zone, and a band is drawn across it from \<open>x = 20\<close> to
  \<open>x = 30\<close>, reaching beyond the plot above and below. The band is not inside the plot and
  meets it; what is left of the plot is two rectangles, from \<open>x = 10\<close> to \<open>x = 20\<close> and from
  \<open>x = 30\<close> to \<open>x = 50\<close>: the library returns a MultiPolygon of two polygons of one ring
  each. (The order of the positions within a ring is the library's; the table fixes one.)
  Then square \<open>C\<close> is drawn.
\<close>

definition plot :: Ring where
  "plot = [pt 10 10, pt 50 10, pt 50 30, pt 10 30]"

definition closedPlot :: Coords where
  "closedPlot = [(10, 10), (50, 10), (50, 30), (10, 30), (10, 10)]"

definition band :: Ring where
  "band = [pt 20 5, pt 30 5, pt 30 35, pt 20 35]"

definition closedBand :: Coords where
  "closedBand = [(20, 5), (30, 5), (30, 35), (20, 35), (20, 5)]"

definition leftPiece :: Coords where
  "leftPiece = [(10, 10), (20, 10), (20, 30), (10, 30), (10, 10)]"

definition rightPiece :: Coords where
  "rightPiece = [(30, 10), (50, 10), (50, 30), (30, 30), (30, 10)]"

definition libBand :: "Coords list Turf" where
  "libBand =
     tableLib [(([closedPlot], [closedBand]), False, True,
                Some (MultiPolygon [[leftPiece], [rightPiece]]))]"

definition stateBand :: State where
  "stateBand =
     \<lparr> currentPolygon = band, zones = [Rings [plot]], history = [[]], redoStack = [] \<rparr>"

definition garbledPlot :: Zone where
  "garbledPlot =
     Garbled [[\<lparr> gx = Some (10, 10), gy = Some (20, 10) \<rparr>],
              [\<lparr> gx = Some (30, 10), gy = Some (50, 10) \<rparr>]]"

definition stateAfterBand :: State where
  "stateAfterBand =
     \<lparr> currentPolygon = squareC, zones = [garbledPlot],
       history = [[], [Rings [plot]]], redoStack = [] \<rparr>"

text \<open>
  A library whose \<open>difference\<close> gives up, as the clipping code under \<open>@turf/difference\<close>
  does on some inputs; the polygons it is asked about meet and neither contains the other.
\<close>

definition libClipFails :: "Coords list Turf" where
  "libClipFails =
     \<lparr> turfPolygon = checkedPolygon,
       booleanContains = (\<lambda>a b. Inr False),
       booleanIntersects = (\<lambda>a b. Inr True),
       difference = (\<lambda>a b. Inl (LibraryError ''Unable to complete output ring'')) \<rparr>"

section \<open>The scan for the nearest vertex\<close>

text \<open>
  The three loops visit the vertices of all rings of all zones in order; a vertex
  replaces the candidate only when it is strictly nearer.
\<close>

lemma scanRing_append:
  "scanRing p (vs @ ws) st = scanRing p ws (scanRing p vs st)"
proof (induction vs arbitrary: st)
  case Nil
  show ?case by simp
next
  case (Cons v vs)
  obtain n m where "st = (n, m)" by (cases st)
  with Cons show ?case by (simp add: Let_def)
qed

lemma scanRings_concat: "scanRings p rs st = scanRing p (concat rs) st"
  by (induction rs arbitrary: st) (simp_all add: scanRing_append)

lemma scanZone_concat: "scanZone p z st = scanRing p (concat (zoneRings z)) st"
  by (cases z) (simp_all add: scanRings_concat)

lemma scanZones_concat:
  "scanZones p zs st = scanRing p (concat (concat (map zoneRings zs))) st"
  by (induction zs arbitrary: st) (simp_all add: scanRing_append scanZone_concat)

lemma scanRing_keep:
  "\<forall>W \<in> set vs. m \<le> distance p W \<Longrightarrow> scanRing p vs (n, m) = (n, m)"
  by (induction vs) (simp_all add: Let_def)

lemma scanRing_nearest:
  assumes "V \<in> set vs"
    and "distance p V < m"
    and "\<forall>W \<in> set vs. W \<noteq> V \<longrightarrow> distance p V < distance p W"
  shows "scanRing p vs (n, m) = (Some V, distance p V)"
  using assms
proof (induction vs arbitrary: n m)
  case Nil
  then show ?case by simp
next
  case (Cons v vs)
  show ?case
  proof (cases "v = V")
    case True
    have "\<forall>W \<in> set vs. distance p V \<le> distance p W"
      using Cons.prems(3) by force
    then have "scanRing p vs (Some V, distance p V) = (Some V, distance p V)"
      by (rule scanRing_keep)
    with True Cons.prems(2) show ?thesis by (simp add: Let_def)
  next
    case False
    with Cons.prems have in_rest: "V \<in> set vs"
      and far: "distance p V < distance p v"
      and rest: "\<forall>W \<in> set vs. W \<noteq> V \<longrightarrow> distance p V < distance p W"
      by auto
    show ?thesis
    proof (cases "distance p v < m")
      case True
      have "scanRing p vs (Some v, distance p v) = (Some V, distance p V)"
        using in_rest far rest by (rule Cons.IH)
      with True show ?thesis by (simp add: Let_def)
    next
      case False
      have "scanRing p vs (n, m) = (Some V, distance p V)"
        using in_rest Cons.prems(2) rest by (rule Cons.IH)
      with False show ?thesis by (simp add: Let_def)
    qed
  qed
qed

lemma distance_zero_iff: "distance (a :: Point) b = 0 \<longleftrightarrow> a = b"
proof -
  have "distance a b = 0 \<longleftrightarrow> (px a - px b) ^ 2 + (py a - py b) ^ 2 = 0"
    by (simp add: distance_def)
  also have "\<dots> \<longleftrightarrow> px a = px b \<and> py a = py b"
    by (simp add: sum_power2_eq_zero_iff)
  also have "\<dots> \<longleftrightarrow> a = b"
    by auto
  finally show ?thesis .
qed

lemma sqrt_less_10: "sqrt v < 10 \<longleftrightarrow> v < 100"
proof -
  have "sqrt 100 = 10"
    using real_sqrt_abs [of 10] by simp
  then show ?thesis
    using real_sqrt_less_iff [of v 100] by simp
qed

section \<open>The merge loop\<close>

text \<open>
  What the loop appends and whether it sets \<open>overlapHandled\<close> does not depend on the
  zones already in \<open>updatedZones\<close>, so a run over a zone set splits at any zone.
\<close>

lemma mergeZone_acc:
  "mergeZone lib nt c z (acc, h) =
     (case mergeZone lib nt c z ([], False) of
        Inl e \<Rightarrow> Inl e
      | Inr st \<Rightarrow> Inr (acc @ fst st, h \<or> snd st))"
  by (simp add: mergeZone_def Let_def
      split: Zone.splits list.splits sum.splits bool.splits option.splits Clipped.splits)

lemma mergeLoop_acc:
  "mergeLoop lib nt c zs (acc, h) =
     (case mergeLoop lib nt c zs ([], False) of
        Inl e \<Rightarrow> Inl e
      | Inr st \<Rightarrow> Inr (acc @ fst st, h \<or> snd st))"
proof (induction zs arbitrary: acc h)
  case Nil
  show ?case by simp
next
  case (Cons z zs)
  show ?case
  proof (cases "mergeZone lib nt c z ([], False)")
    case (Inl e)
    then show ?thesis by (simp add: mergeZone_acc [of lib nt c z acc h])
  next
    case (Inr st)
    obtain a1 h1 where st: "st = (a1, h1)" by (cases st)
    have 1: "mergeZone lib nt c z (acc, h) = Inr (acc @ a1, h \<or> h1)"
      using Inr st by (simp add: mergeZone_acc [of lib nt c z acc h])
    show ?thesis
      using Inr st 1 Cons.IH [of "acc @ a1" "h \<or> h1"] Cons.IH [of a1 h1]
      by (auto split: sum.splits)
  qed
qed

lemma mergeLoop_append:
  "mergeLoop lib nt c (xs @ ys) st =
     (case mergeLoop lib nt c xs st of
        Inl e \<Rightarrow> Inl e
      | Inr st' \<Rightarrow> mergeLoop lib nt c ys st')"
  by (induction xs arbitrary: st) (auto split: sum.splits)

lemma mergeLoop_split:
  assumes "mergeLoop lib nt c (pre @ z # post) ([], False) = Inr (uz, oh)"
  obtains ob hb oz hz oa ha where
    "mergeLoop lib nt c pre ([], False) = Inr (ob, hb)"
    "mergeZone lib nt c z ([], False) = Inr (oz, hz)"
    "mergeLoop lib nt c post ([], False) = Inr (oa, ha)"
    "uz = ob @ oz @ oa" "oh = (hb \<or> hz \<or> ha)"
proof (cases "mergeLoop lib nt c pre ([], False)")
  case (Inl e)
  with assms show thesis by (simp add: mergeLoop_append)
next
  case (Inr st0)
  obtain ob hb where st0: "st0 = (ob, hb)" by (cases st0)
  have rest: "mergeLoop lib nt c (z # post) (ob, hb) = Inr (uz, oh)"
    using assms Inr st0 by (simp add: mergeLoop_append)
  show thesis
  proof (cases "mergeZone lib nt c z ([], False)")
    case (Inl e)
    then have "mergeZone lib nt c z (ob, hb) = Inl e"
      by (simp add: mergeZone_acc [of lib nt c z ob hb])
    with rest show thesis by simp
  next
    case Inr1: (Inr st1)
    obtain oz hz where st1: "st1 = (oz, hz)" by (cases st1)
    have "mergeZone lib nt c z (ob, hb) = Inr (ob @ oz, hb \<or> hz)"
      using Inr1 st1 by (simp add: mergeZone_acc [of lib nt c z ob hb])
    with rest have post1: "mergeLoop lib nt c post (ob @ oz, hb \<or> hz) = Inr (uz, oh)"
      by simp
    show thesis
    proof (cases "mergeLoop lib nt c post ([], False)")
      case (Inl e)
      then have "mergeLoop lib nt c post (ob @ oz, hb \<or> hz) = Inl e"
        by (simp add: mergeLoop_acc [of lib nt c post "ob @ oz" "hb \<or> hz"])
      with post1 show thesis by simp
    next
      case Inr2: (Inr st2)
      obtain oa ha where st2: "st2 = (oa, ha)" by (cases st2)
      have "mergeLoop lib nt c post (ob @ oz, hb \<or> hz) = Inr ((ob @ oz) @ oa, (hb \<or> hz) \<or> ha)"
        using Inr2 st2 by (simp add: mergeLoop_acc [of lib nt c post "ob @ oz" "hb \<or> hz"])
      with post1 have "uz = ob @ oz @ oa" "oh = (hb \<or> hz \<or> ha)"
        by simp_all
      then show thesis
        using that [of ob hb oz hz oa ha] Inr st0 Inr1 st1 Inr2 st2 by simp
    qed
  qed
qed

lemma handleClosePolygon_Inr:
  assumes "handleClosePolygon lib s = Inr s'"
  obtains nt uz oh where
    "currentPolygon s \<noteq> []"
    "turfPolygon lib [closeRing (map flat (currentPolygon s))] = Inr nt"
    "mergeLoop lib nt (closeRing (map flat (currentPolygon s))) (zones s) ([], False) = Inr (uz, oh)"
    "s' = \<lparr> currentPolygon = [],
            zones = (if \<not> oh then uz @ [Rings [currentPolygon s]] else uz),
            history = history s @ [zones s],
            redoStack = [] \<rparr>"
  using assms
  by (auto simp: handleClosePolygon_def Let_def split: if_splits sum.splits)

lemma mergeZone_Inr_outer:
  "mergeZone lib nt c z st = Inr st' \<Longrightarrow> \<exists>outer hs. z = Rings (outer # hs) \<and> outer \<noteq> []"
  by (auto simp: mergeZone_def split: Zone.splits list.splits if_splits)

lemma mergeZone_contained:
  assumes "outer \<noteq> []"
    and "turfPolygon lib (closeRing (map flat outer) # map (map flat) hs) = Inr et"
    and "booleanContains lib et nt = Inr True"
  shows "mergeZone lib nt c (Rings (outer # hs)) st =
           Inr (fst st @ [Rings (map unflat (closeRing (map flat outer))
                                   # map (map unflat) (map (map flat) hs @ [c]))], True)"
  using assms by (simp add: mergeZone_def)

lemma mergeZone_clipped:
  assumes "outer \<noteq> []"
    and "turfPolygon lib (closeRing (map flat outer) # map (map flat) hs) = Inr et"
    and "booleanContains lib et nt = Inr False"
    and "booleanIntersects lib et nt = Inr True"
    and "difference lib et nt = Inr d"
  shows "mergeZone lib nt c (Rings (outer # hs)) st =
           Inr (case d of
                  None \<Rightarrow> fst st
                | Some (Polygon []) \<Rightarrow> fst st
                | Some (Polygon (r # rs)) \<Rightarrow> fst st @ [Rings (map (map unflat) (r # rs))]
                | Some (MultiPolygon []) \<Rightarrow> fst st
                | Some (MultiPolygon (p # ps)) \<Rightarrow> fst st @ [Garbled (map (map garble) (p # ps))],
                True)"
  using assms by (simp add: mergeZone_def split: option.splits list.splits Clipped.splits)

lemma mergeZone_disjoint:
  assumes "outer \<noteq> []"
    and "turfPolygon lib (closeRing (map flat outer) # map (map flat) hs) = Inr et"
    and "booleanContains lib et nt = Inr False"
    and "booleanIntersects lib et nt = Inr False"
  shows "mergeZone lib nt c (Rings (outer # hs)) st = Inr (fst st @ [Rings (outer # hs)], snd st)"
  using assms by (simp add: mergeZone_def)

lemma mergeLoop_all_disjoint:
  assumes "\<forall>z \<in> set zs. \<exists>outer hs et. z = Rings (outer # hs) \<and> outer \<noteq> []
             \<and> turfPolygon lib (closeRing (map flat outer) # map (map flat) hs) = Inr et
             \<and> booleanContains lib et nt = Inr False
             \<and> booleanIntersects lib et nt = Inr False"
  shows "mergeLoop lib nt c zs (acc, h) = Inr (acc @ zs, h)"
  using assms
proof (induction zs arbitrary: acc)
  case Nil
  show ?case by simp
next
  case (Cons z zs)
  from Cons.prems obtain outer hs et where z: "z = Rings (outer # hs)" "outer \<noteq> []"
    "turfPolygon lib (closeRing (map flat outer) # map (map flat) hs) = Inr et"
    "booleanContains lib et nt = Inr False" "booleanIntersects lib et nt = Inr False"
    by auto
  have "mergeZone lib nt c z (acc, h) = Inr (acc @ [z], h)"
    using mergeZone_disjoint [OF z(2-5), of c "(acc, h)"] z(1) by simp
  moreover have "mergeLoop lib nt c zs (acc @ [z], h) = Inr ((acc @ [z]) @ zs, h)"
    using Cons.prems by (intro Cons.IH) simp
  ultimately show ?case by simp
qed

lemma close_split:
  assumes "handleClosePolygon lib s = Inr s'"
    and "zones s = pre @ z # post"
    and "turfPolygon lib [closeRing (map flat (currentPolygon s))] = Inr nt"
  obtains ob hb oz hz oa ha where
    "mergeLoop lib nt (closeRing (map flat (currentPolygon s))) pre ([], False) = Inr (ob, hb)"
    "mergeZone lib nt (closeRing (map flat (currentPolygon s))) z ([], False) = Inr (oz, hz)"
    "mergeLoop lib nt (closeRing (map flat (currentPolygon s))) post ([], False) = Inr (oa, ha)"
    "zones s' = ob @ oz @ oa @ (if hb \<or> hz \<or> ha then [] else [Rings [currentPolygon s]])"
proof -
  from assms(1) obtain nt' uz oh where
    nt': "turfPolygon lib [closeRing (map flat (currentPolygon s))] = Inr nt'"
    and loop: "mergeLoop lib nt' (closeRing (map flat (currentPolygon s))) (zones s) ([], False)
                 = Inr (uz, oh)"
    and s': "s' = \<lparr> currentPolygon = [],
                     zones = (if \<not> oh then uz @ [Rings [currentPolygon s]] else uz),
                     history = history s @ [zones s],
                     redoStack = [] \<rparr>"
    by (rule handleClosePolygon_Inr)
  from nt' assms(3) have "nt' = nt" by simp
  with loop assms(2) have
    "mergeLoop lib nt (closeRing (map flat (currentPolygon s))) (pre @ z # post) ([], False)
       = Inr (uz, oh)"
    by simp
  then obtain ob hb oz hz oa ha where
    parts: "mergeLoop lib nt (closeRing (map flat (currentPolygon s))) pre ([], False) = Inr (ob, hb)"
      "mergeZone lib nt (closeRing (map flat (currentPolygon s))) z ([], False) = Inr (oz, hz)"
      "mergeLoop lib nt (closeRing (map flat (currentPolygon s))) post ([], False) = Inr (oa, ha)"
    and uz: "uz = ob @ oz @ oa" and oh: "oh = (hb \<or> hz \<or> ha)"
    by (rule mergeLoop_split)
  have "zones s' = ob @ oz @ oa @ (if hb \<or> hz \<or> ha then [] else [Rings [currentPolygon s]])"
    using s' uz oh by simp
  with parts show thesis by (rule that)
qed

lemma mergeLoop_throws:
  assumes "mergeLoop lib nt c pre ([], False) = Inr st"
    and "mergeZone lib nt c z st = Inl e"
  shows "mergeLoop lib nt c (pre @ z # post) ([], False) = Inl e"
  using assms by (simp add: mergeLoop_append)

lemma mergeZone_throws:
  assumes "outer \<noteq> []"
    and "turfPolygon lib (closeRing (map flat outer) # map (map flat) hs) = Inl e
         \<or> (turfPolygon lib (closeRing (map flat outer) # map (map flat) hs) = Inr et
            \<and> (booleanContains lib et nt = Inl e
               \<or> (booleanContains lib et nt = Inr False
                  \<and> (booleanIntersects lib et nt = Inl e
                     \<or> (booleanIntersects lib et nt = Inr True
                        \<and> difference lib et nt = Inl e)))))"
  shows "mergeZone lib nt c (Rings (outer # hs)) st = Inl e"
  using assms by (auto simp: mergeZone_def)

section \<open>The handlers on the examples\<close>

lemmas model_defs =
  handleClosePolygon_def mergeZone_def closeRing_def flat_def unflat_def toFixed2_def

lemmas example_defs =
  tableLib_def checkedPolygon_def pt_def squareA_def squareB_def squareC_def squareE_def
  closedA_def closedB_def zoneAB_def

lemma close_stateAB:
  "handleClosePolygon libAB stateAB =
     Inr \<lparr> currentPolygon = [],
           zones = [Rings [squareA @ [pt 0 0], squareB @ [pt 2 2]]],
           history = [[], [Rings [squareA]]],
           redoStack = [] \<rparr>"
  by (simp add: model_defs example_defs libAB_def stateAB_def)

lemma close_stateCover:
  "handleClosePolygon libCover stateCover =
     Inr \<lparr> currentPolygon = [],
           zones = [Rings [squareC], Rings [squareE]],
           history = [[Rings [squareC], Rings [squareB], Rings [squareE]]],
           redoStack = [] \<rparr>"
  by (simp add: model_defs example_defs libCover_def stateCover_def)

lemma close_stateDisjoint:
  "handleClosePolygon libDisjoint stateDisjoint =
     Inr \<lparr> currentPolygon = [],
           zones = [zoneAB, Rings [squareC]],
           history = [[], [Rings [squareA]], [zoneAB]],
           redoStack = [] \<rparr>"
  by (simp add: model_defs example_defs libDisjoint_def stateDisjoint_def zoneAB_def)

lemma close_stateTriangle:
  "handleClosePolygon libTriangle stateTriangle =
     Inr \<lparr> currentPolygon = [],
           zones = [Rings [[pt 0 0, pt 1 0, pt 1 (3 / 7), pt 0 0]]],
           history = [[], [Rings [triangle]]],
           redoStack = [] \<rparr>"
  by (simp add: model_defs example_defs libTriangle_def stateTriangle_def triangle_def
      closedTriangle_def cutter_def closedCutter_def tip_def)

lemma close_stateRaw:
  "handleClosePolygon libDisjoint stateRaw =
     Inr \<lparr> currentPolygon = [],
           zones = [Rings [rawTriangle]],
           history = [[]],
           redoStack = [] \<rparr>"
  by (simp add: model_defs example_defs libDisjoint_def stateRaw_def rawTriangle_def)

lemma close_stateBand:
  "handleClosePolygon libBand stateBand =
     Inr \<lparr> currentPolygon = [],
           zones = [garbledPlot],
           history = [[], [Rings [plot]]],
           redoStack = [] \<rparr>"
  by (simp add: model_defs example_defs libBand_def stateBand_def plot_def closedPlot_def
      band_def closedBand_def leftPiece_def rightPiece_def garbledPlot_def garble_def)

lemma close_stateDegenerate:
  "handleClosePolygon libDisjoint stateDegenerate =
     Inl (LibraryError ''Each LinearRing of a Polygon must have 4 or more Positions.'')"
  by (simp add: model_defs example_defs libDisjoint_def stateDegenerate_def)

section \<open>The claims\<close>

subsection \<open>C1: snapping to a vertex\<close>

text \<open>
  Claim C1, amended. Let \<open>V\<close> be a vertex of a ring of a zone, at distance less than 10
  from the candidate point \<open>P\<close> and strictly nearer to \<open>P\<close> than every vertex that is another
  point, and let \<open>P\<close> differ from \<open>V\<close>. (The vertices are the points of the zones made of
  rings of points; a garbled zone has none.) Then \<open>getSnappedPoint\<close> returns the point at distance
  1 from \<open>V\<close> on the ray from \<open>V\<close> through \<open>P\<close>: \<open>V + (P - V) / distance P V\<close>. (Distances
  are those of real arithmetic.)
\<close>

theorem snap_one_unit_from_vertex:
  assumes "Rings rs \<in> set zs" and "ring \<in> set rs" and "V \<in> set ring"
    and "distance P V < 10"
    and "\<forall>zone' \<in> set zs. \<forall>ring' \<in> set (zoneRings zone'). \<forall>W \<in> set ring'.
           W \<noteq> V \<longrightarrow> distance P V < distance P W"
    and "P \<noteq> V"
  shows "distance (getSnappedPoint zs P) V = 1
       \<and> px (getSnappedPoint zs P) = px V + (px P - px V) / distance P V
       \<and> py (getSnappedPoint zs P) = py V + (py P - py V) / distance P V"
proof -
  have "ring \<in> set (concat (map zoneRings zs))"
    using assms(1,2) by (auto intro!: bexI [of _ "Rings rs"])
  with assms(3) have mem: "V \<in> set (concat (concat (map zoneRings zs)))"
    by auto
  have far: "\<forall>W \<in> set (concat (concat (map zoneRings zs))).
               W \<noteq> V \<longrightarrow> distance P V < distance P W"
    using assms(5) by auto
  have "scanZones P zs (None, SNAP_THRESHOLD) = (Some V, distance P V)"
    unfolding scanZones_concat SNAP_THRESHOLD_def
    using mem assms(4) far by (rule scanRing_nearest)
  then have nearest: "fst (scanZones P zs (None, SNAP_THRESHOLD)) = Some V"
    by simp
  define dx where "dx = px P - px V"
  define dy where "dy = py P - py V"
  have len: "sqrt (dx * dx + dy * dy) = distance P V"
    by (simp add: distance_def dx_def dy_def power2_eq_square)
  have pos: "distance P V > 0"
    using assms(6) distance_zero_iff [of P V]
    by (simp add: distance_def less_le)
  have snapped: "getSnappedPoint zs P =
      \<lparr> px = px V + dx / distance P V, py = py V + dy / distance P V \<rparr>"
    using nearest len pos by (simp add: getSnappedPoint_def Let_def dx_def dy_def)
  have sq: "(distance P V) ^ 2 = dx ^ 2 + dy ^ 2"
    by (simp add: distance_def dx_def dy_def)
  have "(dx / distance P V) ^ 2 + (dy / distance P V) ^ 2 = (dx ^ 2 + dy ^ 2) / (distance P V) ^ 2"
    by (simp add: power_divide add_divide_distrib)
  also have "\<dots> = 1"
    using pos by (simp add: sq [symmetric])
  finally have "distance (getSnappedPoint zs P) V = 1"
    by (simp add: snapped distance_def)
  with snapped show ?thesis
    by (simp add: dx_def dy_def)
qed

theorem snap_one_unit_from_vertex_witness:
  "distance (getSnappedPoint [garbledPlot, Rings [squareA]] (pt 3 4)) (pt 0 0) = 1
   \<and> px (getSnappedPoint [garbledPlot, Rings [squareA]] (pt 3 4)) = 3 / 5
   \<and> py (getSnappedPoint [garbledPlot, Rings [squareA]] (pt 3 4)) = 4 / 5"
proof -
  have 1: "Rings [squareA] \<in> set [garbledPlot, Rings [squareA]]"
    and 2: "squareA \<in> set [squareA]"
    and 3: "pt 0 0 \<in> set squareA"
    by (simp_all add: squareA_def)
  have d: "distance (pt 3 4) (pt 0 0) = 5"
    using real_sqrt_abs [of 5] by (simp add: distance_def pt_def)
  have 4: "distance (pt 3 4) (pt 0 0) < 10"
    by (simp add: d)
  have s: "5 < sqrt v \<longleftrightarrow> 25 < v" for v
    using real_sqrt_less_iff [of 25 v] real_sqrt_abs [of 5] by simp
  have 5: "\<forall>zone' \<in> set [garbledPlot, Rings [squareA]].
             \<forall>ring' \<in> set (zoneRings zone'). \<forall>W \<in> set ring'.
           W \<noteq> pt 0 0 \<longrightarrow> distance (pt 3 4) (pt 0 0) < distance (pt 3 4) W"
    by (simp add: distance_def pt_def squareA_def garbledPlot_def s)
  have 6: "pt 3 4 \<noteq> pt 0 0"
    by (simp add: pt_def)
  show ?thesis
    using snap_one_unit_from_vertex [OF 1 2 3 4 5 6] d by (simp add: pt_def)
qed

text \<open>
  The claim as written includes \<open>P = V\<close>, and fails there: the length is 0, \<open>length || 1\<close>
  makes it 1, the offset is \<open>0 / 1\<close> in both coordinates, and the result is \<open>V\<close> itself, at
  distance 0.
\<close>

theorem snap_on_vertex_counterexample:
  "pt 10 10 \<in> set squareA
   \<and> distance (pt 10 10) (pt 10 10) < 10
   \<and> getSnappedPoint [Rings [squareA]] (pt 10 10) = pt 10 10
   \<and> distance (getSnappedPoint [Rings [squareA]] (pt 10 10)) (pt 10 10) = 0"
  by (simp add: getSnappedPoint_def SNAP_THRESHOLD_def distance_def squareA_def pt_def
      sqrt_less_10 Let_def)

subsection \<open>C2: a zone that the new polygon intersects\<close>

text \<open>
  Claim C2 on the code, at a subtraction that fragments the zone. In a closure that
  completes, let a zone not contain the new polygon and intersect it, and let the
  difference be a MultiPolygon with at least one polygon. The claim asks for one zone for
  each ring of the difference. The handler puts one zone at the place of the old one, and
  a garbled one: it has one list for each polygon of the difference, holding one object
  for each ring of that polygon, whose \<open>x\<close> and \<open>y\<close> are the first two positions of the
  ring. The loop body of any later closure throws a \<open>TypeError\<close> on that zone.
\<close>

theorem fragmented_zone_garbled:
  assumes "handleClosePolygon lib s = Inr s'"
    and "zones s = pre @ Rings (outer # hs) # post"
    and "turfPolygon lib [closeRing (map flat (currentPolygon s))] = Inr nt"
    and "turfPolygon lib (closeRing (map flat outer) # map (map flat) hs) = Inr et"
    and "booleanContains lib et nt = Inr False"
    and "booleanIntersects lib et nt = Inr True"
    and "difference lib et nt = Inr (Some (MultiPolygon (p # ps)))"
  shows "(\<exists>ob hb oa ha.
            mergeLoop lib nt (closeRing (map flat (currentPolygon s))) pre ([], False)
              = Inr (ob, hb)
          \<and> mergeLoop lib nt (closeRing (map flat (currentPolygon s))) post ([], False)
              = Inr (oa, ha)
          \<and> zones s' = ob @ [Garbled (map (map garble) (p # ps))] @ oa)
       \<and> mergeZone lib2 nt2 c2 (Garbled (map (map garble) (p # ps))) st2 = Inl TypeError"
proof
  from assms(1-3) obtain ob hb oz hz oa ha where
    pre: "mergeLoop lib nt (closeRing (map flat (currentPolygon s))) pre ([], False) = Inr (ob, hb)"
    and z: "mergeZone lib nt (closeRing (map flat (currentPolygon s))) (Rings (outer # hs))
              ([], False) = Inr (oz, hz)"
    and post: "mergeLoop lib nt (closeRing (map flat (currentPolygon s))) post ([], False)
              = Inr (oa, ha)"
    and out: "zones s' = ob @ oz @ oa
                @ (if hb \<or> hz \<or> ha then [] else [Rings [currentPolygon s]])"
    by (rule close_split)
  from z have ne: "outer \<noteq> []"
    by (auto dest: mergeZone_Inr_outer)
  have "oz = [Garbled (map (map garble) (p # ps))] \<and> hz"
    using z mergeZone_clipped [OF ne assms(4-7), of "closeRing (map flat (currentPolygon s))" "([], False)"]
    by simp
  with out have "zones s' = ob @ [Garbled (map (map garble) (p # ps))] @ oa" by simp
  with pre post show "\<exists>ob hb oa ha.
            mergeLoop lib nt (closeRing (map flat (currentPolygon s))) pre ([], False)
              = Inr (ob, hb)
          \<and> mergeLoop lib nt (closeRing (map flat (currentPolygon s))) post ([], False)
              = Inr (oa, ha)
          \<and> zones s' = ob @ [Garbled (map (map garble) (p # ps))] @ oa"
    by blast
next
  show "mergeZone lib2 nt2 c2 (Garbled (map (map garble) (p # ps))) st2 = Inl TypeError"
    by (simp add: mergeZone_def)
qed

text \<open>
  The plot is a zone and the band is drawn across it: two rectangles are left. The claim
  asks for two zones, the two rectangles. The handler stores one garbled zone, and the
  closure of square \<open>C\<close> after it throws.
\<close>

theorem fragmented_zone_garbled_witness:
  "zones stateBand = [Rings [plot]]
   \<and> booleanContains libBand [closedPlot] [closedBand] = Inr False
   \<and> booleanIntersects libBand [closedPlot] [closedBand] = Inr True
   \<and> difference libBand [closedPlot] [closedBand]
       = Inr (Some (MultiPolygon [[leftPiece], [rightPiece]]))
   \<and> handleClosePolygon libBand stateBand =
       Inr \<lparr> currentPolygon = [],
             zones = [Garbled [[\<lparr> gx = Some (10, 10), gy = Some (20, 10) \<rparr>],
                               [\<lparr> gx = Some (30, 10), gy = Some (50, 10) \<rparr>]]],
             history = [[], [Rings [plot]]],
             redoStack = [] \<rparr>
   \<and> (\<exists>ob hb oa ha.
        mergeLoop libBand [closedBand] closedBand [] ([], False) = Inr (ob, hb)
      \<and> mergeLoop libBand [closedBand] closedBand [] ([], False) = Inr (oa, ha)
      \<and> [Garbled [[\<lparr> gx = Some (10, 10), gy = Some (20, 10) \<rparr>],
                   [\<lparr> gx = Some (30, 10), gy = Some (50, 10) \<rparr>]]]
          = ob @ [Garbled (map (map garble) [[leftPiece], [rightPiece]])] @ oa)
   \<and> [Garbled [[\<lparr> gx = Some (10, 10), gy = Some (20, 10) \<rparr>],
                [\<lparr> gx = Some (30, 10), gy = Some (50, 10) \<rparr>]]]
       \<noteq> [Rings [map unflat leftPiece], Rings [map unflat rightPiece]]
   \<and> mergeZone libBand [[(20, 20), (22, 20), (22, 22), (20, 22), (20, 20)]]
        [(20, 20), (22, 20), (22, 22), (20, 22), (20, 20)]
        (Garbled (map (map garble) [[leftPiece], [rightPiece]])) ([], False) = Inl TypeError
   \<and> handleClosePolygon libBand stateAfterBand = Inl TypeError"
proof -
  have 2: "zones stateBand = [] @ Rings (plot # []) # []"
    by (simp add: stateBand_def)
  have c: "closeRing (map flat (currentPolygon stateBand)) = closedBand"
    by (simp add: model_defs example_defs stateBand_def band_def closedBand_def)
  have a: "closeRing (map flat plot) = closedPlot"
    by (simp add: model_defs example_defs plot_def closedPlot_def)
  have 3: "turfPolygon libBand [closeRing (map flat (currentPolygon stateBand))]
             = Inr [closedBand]"
    by (simp add: c) (simp add: example_defs libBand_def closedBand_def)
  have 4: "turfPolygon libBand (closeRing (map flat plot) # map (map flat) [])
             = Inr [closedPlot]"
    by (simp add: a) (simp add: example_defs libBand_def closedPlot_def)
  have 5: "booleanContains libBand [closedPlot] [closedBand] = Inr False"
    and 6: "booleanIntersects libBand [closedPlot] [closedBand] = Inr True"
    and 7: "difference libBand [closedPlot] [closedBand]
              = Inr (Some (MultiPolygon ([leftPiece] # [[rightPiece]])))"
    by (simp_all add: example_defs libBand_def)
  have run: "handleClosePolygon libBand stateBand =
       Inr \<lparr> currentPolygon = [],
             zones = [Garbled [[\<lparr> gx = Some (10, 10), gy = Some (20, 10) \<rparr>],
                               [\<lparr> gx = Some (30, 10), gy = Some (50, 10) \<rparr>]]],
             history = [[], [Rings [plot]]],
             redoStack = [] \<rparr>"
    using close_stateBand by (simp add: garbledPlot_def)
  have after: "handleClosePolygon libBand stateAfterBand = Inl TypeError"
    by (simp add: model_defs example_defs libBand_def stateAfterBand_def garbledPlot_def)
  show ?thesis
    using fragmented_zone_garbled [OF run 2 3 4 5 6 7,
        of libBand "[[(20, 20), (22, 20), (22, 22), (20, 22), (20, 20)]]"
           "[(20, 20), (22, 20), (22, 22), (20, 22), (20, 20)]" "([], False)"]
      run after 5 6 7 c
    by (simp add: stateBand_def)
qed

subsection \<open>C3: a zone that contains the new polygon\<close>

text \<open>
  Claim C3, amended. In a closure that completes, a zone that contains the new polygon is
  replaced at its place by the zone made of: its outer ring with every coordinate rounded
  to two decimals and, unless first and last position agree, the first position repeated
  at the end; its holes with every coordinate rounded to two decimals; and as last hole
  the new polygon, rounded and closed in the same way. The new polygon is not appended as
  a zone.
\<close>

theorem contained_polygon_becomes_hole:
  assumes "handleClosePolygon lib s = Inr s'"
    and "zones s = pre @ Rings (outer # hs) # post"
    and "turfPolygon lib [closeRing (map flat (currentPolygon s))] = Inr nt"
    and "turfPolygon lib (closeRing (map flat outer) # map (map flat) hs) = Inr et"
    and "booleanContains lib et nt = Inr True"
  shows "\<exists>ob hb oa ha.
           mergeLoop lib nt (closeRing (map flat (currentPolygon s))) pre ([], False) = Inr (ob, hb)
         \<and> mergeLoop lib nt (closeRing (map flat (currentPolygon s))) post ([], False) = Inr (oa, ha)
         \<and> zones s' =
             ob @ [Rings (map unflat (closeRing (map flat outer))
                          # map (map unflat) (map (map flat) hs)
                          @ [map unflat (closeRing (map flat (currentPolygon s)))])] @ oa"
proof -
  from assms(1-3) obtain ob hb oz hz oa ha where
    pre: "mergeLoop lib nt (closeRing (map flat (currentPolygon s))) pre ([], False) = Inr (ob, hb)"
    and z: "mergeZone lib nt (closeRing (map flat (currentPolygon s))) (Rings (outer # hs)) ([], False)
              = Inr (oz, hz)"
    and post: "mergeLoop lib nt (closeRing (map flat (currentPolygon s))) post ([], False)
              = Inr (oa, ha)"
    and out: "zones s' = ob @ oz @ oa @ (if hb \<or> hz \<or> ha then [] else [Rings [currentPolygon s]])"
    by (rule close_split)
  from z have ne: "outer \<noteq> []"
    by (auto dest: mergeZone_Inr_outer)
  have "oz = [Rings (map unflat (closeRing (map flat outer))
                      # map (map unflat) (map (map flat) hs)
                      @ [map unflat (closeRing (map flat (currentPolygon s)))])] \<and> hz"
    using z mergeZone_contained [OF ne assms(4,5), of "closeRing (map flat (currentPolygon s))" "([], False)"]
    by simp
  with out pre post show ?thesis by simp
qed

theorem contained_polygon_becomes_hole_witness:
  "booleanContains libAB [closedA] [closedB] = Inr True
   \<and> (\<exists>ob hb oa ha.
        mergeLoop libAB [closedB] closedB [] ([], False) = Inr (ob, hb)
      \<and> mergeLoop libAB [closedB] closedB [] ([], False) = Inr (oa, ha)
      \<and> [Rings [squareA @ [pt 0 0], squareB @ [pt 2 2]]]
          = ob @ [Rings (map unflat closedA # map (map unflat) (map (map flat) [])
                         @ [map unflat closedB])] @ oa)"
proof -
  have 2: "zones stateAB = [] @ Rings (squareA # []) # []"
    by (simp add: stateAB_def)
  have c: "closeRing (map flat (currentPolygon stateAB)) = closedB"
    by (simp add: model_defs example_defs stateAB_def)
  have a: "closeRing (map flat squareA) = closedA"
    by (simp add: model_defs example_defs)
  have 3: "turfPolygon libAB [closeRing (map flat (currentPolygon stateAB))] = Inr [closedB]"
    by (simp add: c) (simp add: example_defs libAB_def)
  have 4: "turfPolygon libAB (closeRing (map flat squareA) # map (map flat) []) = Inr [closedA]"
    by (simp add: a) (simp add: example_defs libAB_def)
  have 5: "booleanContains libAB [closedA] [closedB] = Inr True"
    by (simp add: example_defs libAB_def)
  show ?thesis
    using contained_polygon_becomes_hole [OF close_stateAB 2 3 4 5] 5 c a by simp
qed

text \<open>
  The claim as written (outer ring the same point sequence as before, hole the polygon as
  drawn) fails on the scenario of the specification: the outer ring of \<open>A\<close>, stored with
  four points by the closure that made it, has five points after the merge, and so has
  the hole.
\<close>

theorem outer_ring_unchanged_counterexample:
  "booleanContains libAB [closedA] [closedB] = Inr True
   \<and> zones stateAB = [Rings [squareA]]
   \<and> currentPolygon stateAB = squareB
   \<and> handleClosePolygon libAB stateAB =
       Inr \<lparr> currentPolygon = [],
             zones = [Rings [squareA @ [pt 0 0], squareB @ [pt 2 2]]],
             history = [[], [Rings [squareA]]],
             redoStack = [] \<rparr>
   \<and> squareA @ [pt 0 0] \<noteq> squareA
   \<and> squareB @ [pt 2 2] \<noteq> squareB"
  using close_stateAB by (simp add: example_defs libAB_def stateAB_def)

subsection \<open>C4: the library throws\<close>

text \<open>
  Claim C4, amended. The handler does not catch what the library throws. When
  \<open>polygon\<close> throws on the new ring, \<open>handleClosePolygon\<close> throws the same error. When the
  new ring is accepted, the zones before some zone are processed, and for that zone
  \<open>polygon\<close>, \<open>booleanContains\<close>, \<open>booleanIntersects\<close> or \<open>difference\<close> throws (each where
  the loop body reaches it), \<open>handleClosePolygon\<close> throws the same error. In both cases no
  state setter is reached: zones, stacks and the polygon being drawn stay as they were.
\<close>

theorem library_error_propagates:
  assumes "currentPolygon s \<noteq> []"
    and "turfPolygon lib [closeRing (map flat (currentPolygon s))] = Inl e"
    and "currentPolygon t \<noteq> []"
    and "turfPolygon lib' [closeRing (map flat (currentPolygon t))] = Inr nt"
    and "zones t = pre @ Rings (outer # hs) # post"
    and "outer \<noteq> []"
    and "mergeLoop lib' nt (closeRing (map flat (currentPolygon t))) pre ([], False) = Inr st"
    and "turfPolygon lib' (closeRing (map flat outer) # map (map flat) hs) = Inl e'
         \<or> (turfPolygon lib' (closeRing (map flat outer) # map (map flat) hs) = Inr et
            \<and> (booleanContains lib' et nt = Inl e'
               \<or> (booleanContains lib' et nt = Inr False
                  \<and> (booleanIntersects lib' et nt = Inl e'
                     \<or> (booleanIntersects lib' et nt = Inr True
                        \<and> difference lib' et nt = Inl e')))))"
  shows "handleClosePolygon lib s = Inl e \<and> handleClosePolygon lib' t = Inl e'"
proof
  show "handleClosePolygon lib s = Inl e"
    using assms(1,2) by (simp add: handleClosePolygon_def)
next
  have "mergeZone lib' nt (closeRing (map flat (currentPolygon t))) (Rings (outer # hs)) st = Inl e'"
    using assms(6,8) by (rule mergeZone_throws)
  with assms(7) have
    "mergeLoop lib' nt (closeRing (map flat (currentPolygon t))) (pre @ Rings (outer # hs) # post)
       ([], False) = Inl e'"
    by (rule mergeLoop_throws)
  then show "handleClosePolygon lib' t = Inl e'"
    using assms(3,4,5) by (simp add: handleClosePolygon_def)
qed

theorem library_error_propagates_witness:
  "handleClosePolygon libDisjoint stateDegenerate =
     Inl (LibraryError ''Each LinearRing of a Polygon must have 4 or more Positions.'')
   \<and> handleClosePolygon libClipFails stateStrip =
     Inl (LibraryError ''Unable to complete output ring'')"
proof -
  have 1: "currentPolygon stateDegenerate \<noteq> []"
    by (simp add: stateDegenerate_def)
  have 2: "turfPolygon libDisjoint [closeRing (map flat (currentPolygon stateDegenerate))] =
             Inl (LibraryError ''Each LinearRing of a Polygon must have 4 or more Positions.'')"
    by (simp add: model_defs example_defs libDisjoint_def stateDegenerate_def)
  have 3: "currentPolygon stateStrip \<noteq> []"
    by (simp add: stateStrip_def strip_def)
  have 4: "turfPolygon libClipFails [closeRing (map flat (currentPolygon stateStrip))]
             = Inr [closedStrip]"
    by (simp add: model_defs example_defs libClipFails_def stateStrip_def strip_def closedStrip_def)
  have 5: "zones stateStrip = [] @ Rings (map unflat closedA # [map unflat closedB]) # []"
    by (simp add: stateStrip_def zoneAB_def)
  have 6: "map unflat closedA \<noteq> []"
    by (simp add: closedA_def)
  have 7: "mergeLoop libClipFails [closedStrip] (closeRing (map flat (currentPolygon stateStrip)))
             [] ([], False) = Inr ([], False)"
    by simp
  have 8: "turfPolygon libClipFails (closeRing (map flat (map unflat closedA))
             # map (map flat) [map unflat closedB]) = Inr [closedA, closedB]"
    by (simp add: model_defs example_defs libClipFails_def)
  have 9: "booleanContains libClipFails [closedA, closedB] [closedStrip] = Inr False"
    "booleanIntersects libClipFails [closedA, closedB] [closedStrip] = Inr True"
    "difference libClipFails [closedA, closedB] [closedStrip]
       = Inl (LibraryError ''Unable to complete output ring'')"
    by (simp_all add: libClipFails_def)
  have d: "turfPolygon libClipFails (closeRing (map flat (map unflat closedA))
             # map (map flat) [map unflat closedB])
             = Inl (LibraryError ''Unable to complete output ring'')
         \<or> (turfPolygon libClipFails (closeRing (map flat (map unflat closedA))
             # map (map flat) [map unflat closedB]) = Inr [closedA, closedB]
            \<and> (booleanContains libClipFails [closedA, closedB] [closedStrip]
                 = Inl (LibraryError ''Unable to complete output ring'')
               \<or> (booleanContains libClipFails [closedA, closedB] [closedStrip] = Inr False
                  \<and> (booleanIntersects libClipFails [closedA, closedB] [closedStrip]
                       = Inl (LibraryError ''Unable to complete output ring'')
                     \<or> (booleanIntersects libClipFails [closedA, closedB] [closedStrip] = Inr True
                        \<and> difference libClipFails [closedA, closedB] [closedStrip]
                            = Inl (LibraryError ''Unable to complete output ring''))))))"
    using 8 9 by simp
  show ?thesis
    using library_error_propagates [OF 1 2 3 4 5 6 7 d] by simp
qed

text \<open>
  The claim as written fails when the third point of the polygon is the first one again:
  the ring has three positions, \<open>polygon\<close> refuses it, and the double click ends with
  that error instead of a new zone.
\<close>

theorem library_error_not_caught_counterexample:
  "turfPolygon libDisjoint [closeRing (map flat (currentPolygon stateDegenerate))] =
     Inl (LibraryError ''Each LinearRing of a Polygon must have 4 or more Positions.'')
   \<and> handleCanvasDoubleClick libDisjoint stateDegenerate =
     Inl (LibraryError ''Each LinearRing of a Polygon must have 4 or more Positions.'')
   \<and> handleClosePolygon libDisjoint stateDegenerate =
     Inl (LibraryError ''Each LinearRing of a Polygon must have 4 or more Positions.'')"
  using close_stateDegenerate
  by (simp add: handleCanvasDoubleClick_def)
     (simp add: model_defs example_defs libDisjoint_def stateDegenerate_def)

subsection \<open>C5: undo after a closure, then redo\<close>

text \<open>
  Claim C5. From any state (so after any sequence of closures), undo right after a
  closure that completes gives back the zones and the undo stack of before the closure,
  with the zones of after the closure alone on the redo stack; redo then gives back the
  state of after the closure, all four fields of it.
\<close>

theorem undo_redo_round_trip:
  assumes "handleClosePolygon lib s = Inr s'"
  shows "zones (handleUndo s') = zones s
         \<and> history (handleUndo s') = history s
         \<and> redoStack (handleUndo s') = [zones s']
         \<and> handleRedo (handleUndo s') = s'"
  using assms by (rule handleClosePolygon_Inr) (simp add: handleUndo_def handleRedo_def)

theorem undo_redo_round_trip_witness:
  "zones (handleUndo \<lparr> currentPolygon = [], zones = [zoneAB, Rings [squareC]],
                        history = [[], [Rings [squareA]], [zoneAB]], redoStack = [] \<rparr>) = [zoneAB]
   \<and> handleRedo (handleUndo \<lparr> currentPolygon = [], zones = [zoneAB, Rings [squareC]],
                        history = [[], [Rings [squareA]], [zoneAB]], redoStack = [] \<rparr>)
       = \<lparr> currentPolygon = [], zones = [zoneAB, Rings [squareC]],
           history = [[], [Rings [squareA]], [zoneAB]], redoStack = [] \<rparr>"
  using undo_redo_round_trip [OF close_stateDisjoint] by (simp add: stateDisjoint_def)

subsection \<open>C6: a zone that the new polygon covers\<close>

text \<open>
  Claim C6. In a closure that completes, a zone that does not contain the new polygon,
  intersects it, and whose difference with it is \<open>null\<close> or has no ring, leaves nothing in
  the output: the new zones are what the loop makes of the zones before it followed by
  what it makes of the zones after it, and the new polygon is not appended.
\<close>

theorem covered_zone_dropped:
  assumes "handleClosePolygon lib s = Inr s'"
    and "zones s = pre @ Rings (outer # hs) # post"
    and "turfPolygon lib [closeRing (map flat (currentPolygon s))] = Inr nt"
    and "turfPolygon lib (closeRing (map flat outer) # map (map flat) hs) = Inr et"
    and "booleanContains lib et nt = Inr False"
    and "booleanIntersects lib et nt = Inr True"
    and "difference lib et nt = Inr None
         \<or> difference lib et nt = Inr (Some (Polygon []))
         \<or> difference lib et nt = Inr (Some (MultiPolygon []))"
  shows "\<exists>ob hb oa ha.
           mergeLoop lib nt (closeRing (map flat (currentPolygon s))) pre ([], False) = Inr (ob, hb)
         \<and> mergeLoop lib nt (closeRing (map flat (currentPolygon s))) post ([], False) = Inr (oa, ha)
         \<and> zones s' = ob @ oa"
proof -
  from assms(1-3) obtain ob hb oz hz oa ha where
    pre: "mergeLoop lib nt (closeRing (map flat (currentPolygon s))) pre ([], False) = Inr (ob, hb)"
    and z: "mergeZone lib nt (closeRing (map flat (currentPolygon s))) (Rings (outer # hs)) ([], False)
              = Inr (oz, hz)"
    and post: "mergeLoop lib nt (closeRing (map flat (currentPolygon s))) post ([], False)
              = Inr (oa, ha)"
    and out: "zones s' = ob @ oz @ oa @ (if hb \<or> hz \<or> ha then [] else [Rings [currentPolygon s]])"
    by (rule close_split)
  from z have ne: "outer \<noteq> []"
    by (auto dest: mergeZone_Inr_outer)
  from assms(7) have "oz = [] \<and> hz"
  proof
    assume d: "difference lib et nt = Inr None"
    show ?thesis
      using z mergeZone_clipped [OF ne assms(4-6) d, of "closeRing (map flat (currentPolygon s))" "([], False)"]
      by simp
  next
    assume "difference lib et nt = Inr (Some (Polygon []))
            \<or> difference lib et nt = Inr (Some (MultiPolygon []))"
    then show ?thesis
    proof
      assume d: "difference lib et nt = Inr (Some (Polygon []))"
      show ?thesis
        using z mergeZone_clipped [OF ne assms(4-6) d, of "closeRing (map flat (currentPolygon s))" "([], False)"]
        by simp
    next
      assume d: "difference lib et nt = Inr (Some (MultiPolygon []))"
      show ?thesis
        using z mergeZone_clipped [OF ne assms(4-6) d, of "closeRing (map flat (currentPolygon s))" "([], False)"]
        by simp
    qed
  qed
  with out have "zones s' = ob @ oa" by simp
  with pre post show ?thesis by blast
qed

theorem covered_zone_dropped_witness:
  "difference libCover [closedB] [closedA] = Inr None
   \<and> (\<exists>ob hb oa ha.
        mergeLoop libCover [closedA] closedA [Rings [squareC]] ([], False) = Inr (ob, hb)
      \<and> mergeLoop libCover [closedA] closedA [Rings [squareE]] ([], False) = Inr (oa, ha)
      \<and> [Rings [squareC], Rings [squareE]] = ob @ oa)"
proof -
  have 2: "zones stateCover = [Rings [squareC]] @ Rings (squareB # []) # [Rings [squareE]]"
    by (simp add: stateCover_def)
  have c: "closeRing (map flat (currentPolygon stateCover)) = closedA"
    by (simp add: model_defs example_defs stateCover_def)
  have 3: "turfPolygon libCover [closeRing (map flat (currentPolygon stateCover))] = Inr [closedA]"
    by (simp add: model_defs example_defs libCover_def stateCover_def)
  have 4: "turfPolygon libCover (closeRing (map flat squareB) # map (map flat) []) = Inr [closedB]"
    by (simp add: model_defs example_defs libCover_def)
  have 5: "booleanContains libCover [closedB] [closedA] = Inr False"
    by (simp add: example_defs libCover_def)
  have 6: "booleanIntersects libCover [closedB] [closedA] = Inr True"
    by (simp add: example_defs libCover_def)
  have 7: "difference libCover [closedB] [closedA] = Inr None"
    by (simp add: example_defs libCover_def)
  have d: "difference libCover [closedB] [closedA] = Inr None
            \<or> difference libCover [closedB] [closedA] = Inr (Some (Polygon []))
            \<or> difference libCover [closedB] [closedA] = Inr (Some (MultiPolygon []))"
    using 7 by simp
  show ?thesis
    using covered_zone_dropped [OF close_stateCover 2 3 4 5 6 d] 7 c by simp
qed

subsection \<open>C7: a polygon away from every zone\<close>

text \<open>
  Claim C7. When the library accepts the new polygon and every zone (each a zone of
  rings of points), and answers for every zone that it neither contains nor intersects
  the new polygon, the closure
  completes, every zone is kept as it is and in order, and the new polygon is appended as
  a zone of one ring, the polygon as drawn: one zone more.
\<close>

theorem disjoint_polygon_appended:
  assumes "currentPolygon s \<noteq> []"
    and "turfPolygon lib [closeRing (map flat (currentPolygon s))] = Inr nt"
    and "\<forall>z \<in> set (zones s). \<exists>outer hs et. z = Rings (outer # hs) \<and> outer \<noteq> []
           \<and> turfPolygon lib (closeRing (map flat outer) # map (map flat) hs) = Inr et
           \<and> booleanContains lib et nt = Inr False
           \<and> booleanIntersects lib et nt = Inr False"
  shows "\<exists>s'. handleClosePolygon lib s = Inr s'
           \<and> zones s' = zones s @ [Rings [currentPolygon s]]
           \<and> length (zones s') = length (zones s) + 1"
proof -
  have "mergeLoop lib nt (closeRing (map flat (currentPolygon s))) (zones s) ([], False)
          = Inr ([] @ zones s, False)"
    using assms(3) by (rule mergeLoop_all_disjoint)
  then show ?thesis
    using assms(1,2) by (simp add: handleClosePolygon_def)
qed

theorem disjoint_polygon_appended_witness:
  "\<exists>s'. handleClosePolygon libDisjoint stateDisjoint = Inr s'
     \<and> zones s' = [zoneAB, Rings [squareC]]
     \<and> length (zones s') = 2"
proof -
  have 1: "currentPolygon stateDisjoint \<noteq> []"
    by (simp add: stateDisjoint_def squareC_def)
  have 2: "turfPolygon libDisjoint [closeRing (map flat (currentPolygon stateDisjoint))]
             = Inr [[(20, 20), (22, 20), (22, 22), (20, 22), (20, 20)]]"
    by (simp add: model_defs example_defs libDisjoint_def stateDisjoint_def)
  have 3: "\<forall>z \<in> set (zones stateDisjoint). \<exists>outer hs et. z = Rings (outer # hs) \<and> outer \<noteq> []
           \<and> turfPolygon libDisjoint (closeRing (map flat outer) # map (map flat) hs) = Inr et
           \<and> booleanContains libDisjoint et [[(20, 20), (22, 20), (22, 22), (20, 22), (20, 20)]]
               = Inr False
           \<and> booleanIntersects libDisjoint et [[(20, 20), (22, 20), (22, 22), (20, 22), (20, 20)]]
               = Inr False"
    by (simp add: model_defs example_defs libDisjoint_def stateDisjoint_def zoneAB_def)
  show ?thesis
    using disjoint_polygon_appended [OF 1 2 3] by (auto simp add: stateDisjoint_def)
qed

subsection \<open>C8: undo and redo on an empty stack\<close>

text \<open>
  Claim C8. Undo with an empty undo stack and redo with an empty redo stack do nothing:
  the handler returns (it does not throw) and the zones, the undo stack and the redo stack
  are what they were; so is the polygon being drawn.
\<close>

theorem undo_redo_empty_noop:
  assumes "history s = []" and "redoStack t = []"
  shows "handleUndo s = s \<and> handleRedo t = t"
  using assms by (simp add: handleUndo_def handleRedo_def)

theorem undo_redo_empty_noop_witness:
  "history stateCover = [] \<and> redoStack stateAB = []
   \<and> handleUndo stateCover = stateCover \<and> handleRedo stateAB = stateAB"
proof -
  have h: "history stateCover = []" and r: "redoStack stateAB = []"
    by (simp_all add: stateCover_def stateAB_def)
  show ?thesis
    using undo_redo_empty_noop [OF h r] h r by simp
qed

subsection \<open>C9: a closure records the zones it found\<close>

text \<open>
  Claim C9. A closure that completes pushes one snapshot on the undo stack, the zones as
  they were before the merge, and leaves the redo stack empty.
\<close>

theorem closure_pushes_snapshot:
  assumes "handleClosePolygon lib s = Inr s'"
  shows "history s' = history s @ [zones s] \<and> redoStack s' = []"
  using assms by (rule handleClosePolygon_Inr) simp

text \<open>The square \<open>B\<close> is closed after an undo, with a zone set on the redo stack.\<close>

theorem closure_pushes_snapshot_witness:
  "history \<lparr> currentPolygon = [], zones = [Rings [squareA @ [pt 0 0], squareB @ [pt 2 2]]],
             history = [[], [Rings [squareA]]], redoStack = [] \<rparr>
     = history (stateAB\<lparr> redoStack := [[Rings [squareA], Rings [squareC]]] \<rparr>)
         @ [[Rings [squareA]]]
   \<and> redoStack (stateAB\<lparr> redoStack := [[Rings [squareA], Rings [squareC]]] \<rparr>) \<noteq> []
   \<and> redoStack \<lparr> currentPolygon = [], zones = [Rings [squareA @ [pt 0 0], squareB @ [pt 2 2]]],
                 history = [[], [Rings [squareA]]], redoStack = [] \<rparr> = []"
proof -
  have run: "handleClosePolygon libAB
               (stateAB\<lparr> redoStack := [[Rings [squareA], Rings [squareC]]] \<rparr>) =
     Inr \<lparr> currentPolygon = [],
           zones = [Rings [squareA @ [pt 0 0], squareB @ [pt 2 2]]],
           history = [[], [Rings [squareA]]],
           redoStack = [] \<rparr>"
    by (simp add: model_defs example_defs libAB_def stateAB_def)
  show ?thesis
    using closure_pushes_snapshot [OF run] by (simp add: stateAB_def)
qed

subsection \<open>C10: which rings are normalised\<close>

text \<open>
  Claim C10, amended. Three closures that complete. In one where the loop ends with
  \<open>overlapHandled\<close> false, the polygon is appended as drawn: no rounding, no closing
  position. In one where a zone contains the new polygon, the zone is stored with its
  outer ring rounded to two decimals and closed, its holes rounded (they are not closed
  again), and the new polygon rounded and closed. In one where a zone is clipped and the
  difference is a Polygon, the zone is stored with the rings of the difference exactly as
  the library returned them for the rounded, closed inputs: the handler rounds nothing
  there. (What is stored when the difference is a MultiPolygon is not part of this
  statement.)
\<close>

theorem stored_rings_by_branch:
  assumes "handleClosePolygon lib1 s1 = Inr s1'"
    and "turfPolygon lib1 [closeRing (map flat (currentPolygon s1))] = Inr nt1"
    and "mergeLoop lib1 nt1 (closeRing (map flat (currentPolygon s1))) (zones s1) ([], False)
           = Inr (uz1, False)"
    and "handleClosePolygon lib2 s2 = Inr s2'"
    and "zones s2 = pre2 @ Rings (outer2 # hs2) # post2"
    and "turfPolygon lib2 [closeRing (map flat (currentPolygon s2))] = Inr nt2"
    and "turfPolygon lib2 (closeRing (map flat outer2) # map (map flat) hs2) = Inr et2"
    and "booleanContains lib2 et2 nt2 = Inr True"
    and "handleClosePolygon lib3 s3 = Inr s3'"
    and "zones s3 = pre3 @ Rings (outer3 # hs3) # post3"
    and "turfPolygon lib3 [closeRing (map flat (currentPolygon s3))] = Inr nt3"
    and "turfPolygon lib3 (closeRing (map flat outer3) # map (map flat) hs3) = Inr et3"
    and "booleanContains lib3 et3 nt3 = Inr False"
    and "booleanIntersects lib3 et3 nt3 = Inr True"
    and "difference lib3 et3 nt3 = Inr (Some (Polygon (r # rs)))"
  shows "zones s1' = uz1 @ [Rings [currentPolygon s1]]
       \<and> (\<exists>ob hb oa ha.
            mergeLoop lib2 nt2 (closeRing (map flat (currentPolygon s2))) pre2 ([], False)
              = Inr (ob, hb)
          \<and> mergeLoop lib2 nt2 (closeRing (map flat (currentPolygon s2))) post2 ([], False)
              = Inr (oa, ha)
          \<and> zones s2' =
              ob @ [Rings (map unflat (closeRing (map flat outer2))
                           # map (map (unflat \<circ> flat)) hs2
                           @ [map unflat (closeRing (map flat (currentPolygon s2)))])] @ oa)
       \<and> (\<exists>ob hb oa ha.
            mergeLoop lib3 nt3 (closeRing (map flat (currentPolygon s3))) pre3 ([], False)
              = Inr (ob, hb)
          \<and> mergeLoop lib3 nt3 (closeRing (map flat (currentPolygon s3))) post3 ([], False)
              = Inr (oa, ha)
          \<and> zones s3' = ob @ [Rings (map (map unflat) (r # rs))] @ oa)"
proof (intro conjI)
  from assms(1) obtain nt uz oh where
    nt: "turfPolygon lib1 [closeRing (map flat (currentPolygon s1))] = Inr nt"
    and loop: "mergeLoop lib1 nt (closeRing (map flat (currentPolygon s1))) (zones s1) ([], False)
                 = Inr (uz, oh)"
    and s': "s1' = \<lparr> currentPolygon = [],
                      zones = (if \<not> oh then uz @ [Rings [currentPolygon s1]] else uz),
                      history = history s1 @ [zones s1],
                      redoStack = [] \<rparr>"
    by (rule handleClosePolygon_Inr)
  from nt assms(2) have "nt = nt1" by simp
  with loop assms(3) have "uz = uz1" "oh = False" by simp_all
  with s' show "zones s1' = uz1 @ [Rings [currentPolygon s1]]" by simp
next
  from assms(4-6) obtain ob hb oz hz oa ha where
    pre: "mergeLoop lib2 nt2 (closeRing (map flat (currentPolygon s2))) pre2 ([], False)
            = Inr (ob, hb)"
    and z: "mergeZone lib2 nt2 (closeRing (map flat (currentPolygon s2))) (Rings (outer2 # hs2)) ([], False)
            = Inr (oz, hz)"
    and post: "mergeLoop lib2 nt2 (closeRing (map flat (currentPolygon s2))) post2 ([], False)
            = Inr (oa, ha)"
    and out: "zones s2' = ob @ oz @ oa @ (if hb \<or> hz \<or> ha then [] else [Rings [currentPolygon s2]])"
    by (rule close_split)
  from z have ne: "outer2 \<noteq> []"
    by (auto dest: mergeZone_Inr_outer)
  have "oz = [Rings (map unflat (closeRing (map flat outer2))
                      # map (map (unflat \<circ> flat)) hs2
                      @ [map unflat (closeRing (map flat (currentPolygon s2)))])] \<and> hz"
    using z mergeZone_contained [OF ne assms(7,8), of "closeRing (map flat (currentPolygon s2))" "([], False)"]
    by simp
  with out pre post show "\<exists>ob hb oa ha.
            mergeLoop lib2 nt2 (closeRing (map flat (currentPolygon s2))) pre2 ([], False)
              = Inr (ob, hb)
          \<and> mergeLoop lib2 nt2 (closeRing (map flat (currentPolygon s2))) post2 ([], False)
              = Inr (oa, ha)
          \<and> zones s2' =
              ob @ [Rings (map unflat (closeRing (map flat outer2))
                           # map (map (unflat \<circ> flat)) hs2
                           @ [map unflat (closeRing (map flat (currentPolygon s2)))])] @ oa"
    by simp
next
  from assms(9-11) obtain ob hb oz hz oa ha where
    pre: "mergeLoop lib3 nt3 (closeRing (map flat (currentPolygon s3))) pre3 ([], False)
            = Inr (ob, hb)"
    and z: "mergeZone lib3 nt3 (closeRing (map flat (currentPolygon s3))) (Rings (outer3 # hs3)) ([], False)
            = Inr (oz, hz)"
    and post: "mergeLoop lib3 nt3 (closeRing (map flat (currentPolygon s3))) post3 ([], False)
            = Inr (oa, ha)"
    and out: "zones s3' = ob @ oz @ oa @ (if hb \<or> hz \<or> ha then [] else [Rings [currentPolygon s3]])"
    by (rule close_split)
  from z have ne: "outer3 \<noteq> []"
    by (auto dest: mergeZone_Inr_outer)
  have "oz = [Rings (map (map unflat) (r # rs))] \<and> hz"
    using z mergeZone_clipped [OF ne assms(12-15), of "closeRing (map flat (currentPolygon s3))" "([], False)"]
    by simp
  with out pre post show "\<exists>ob hb oa ha.
            mergeLoop lib3 nt3 (closeRing (map flat (currentPolygon s3))) pre3 ([], False)
              = Inr (ob, hb)
          \<and> mergeLoop lib3 nt3 (closeRing (map flat (currentPolygon s3))) post3 ([], False)
              = Inr (oa, ha)
          \<and> zones s3' = ob @ [Rings (map (map unflat) (r # rs))] @ oa"
    by simp
qed

theorem stored_rings_by_branch_witness:
  "zones \<lparr> currentPolygon = [], zones = [Rings [rawTriangle]], history = [[]], redoStack = [] \<rparr>
     = [] @ [Rings [currentPolygon stateRaw]]
   \<and> (\<exists>ob hb oa ha.
        mergeLoop libAB [closedB] closedB [] ([], False) = Inr (ob, hb)
      \<and> mergeLoop libAB [closedB] closedB [] ([], False) = Inr (oa, ha)
      \<and> [Rings [squareA @ [pt 0 0], squareB @ [pt 2 2]]]
          = ob @ [Rings (map unflat closedA # map (map (unflat \<circ> flat)) []
                         @ [map unflat closedB])] @ oa)
   \<and> (\<exists>ob hb oa ha.
        mergeLoop libTriangle [closedCutter] closedCutter [] ([], False) = Inr (ob, hb)
      \<and> mergeLoop libTriangle [closedCutter] closedCutter [] ([], False) = Inr (oa, ha)
      \<and> [Rings [[pt 0 0, pt 1 0, pt 1 (3 / 7), pt 0 0]]]
          = ob @ [Rings (map (map unflat) [tip])] @ oa)"
proof -
  have c1: "closeRing (map flat (currentPolygon stateRaw))
              = [(33 / 100, 0), (5, 0), (5, 167 / 100), (33 / 100, 0)]"
    by (simp add: model_defs example_defs stateRaw_def rawTriangle_def)
  have 2: "turfPolygon libDisjoint [closeRing (map flat (currentPolygon stateRaw))]
             = Inr [[(33 / 100, 0), (5, 0), (5, 167 / 100), (33 / 100, 0)]]"
    by (simp add: c1) (simp add: example_defs libDisjoint_def)
  have 3: "mergeLoop libDisjoint [[(33 / 100, 0), (5, 0), (5, 167 / 100), (33 / 100, 0)]]
             (closeRing (map flat (currentPolygon stateRaw))) (zones stateRaw) ([], False)
             = Inr ([], False)"
    by (simp add: stateRaw_def)
  have 5: "zones stateAB = [] @ Rings (squareA # []) # []"
    by (simp add: stateAB_def)
  have c2: "closeRing (map flat (currentPolygon stateAB)) = closedB"
    by (simp add: model_defs example_defs stateAB_def)
  have a2: "closeRing (map flat squareA) = closedA"
    by (simp add: model_defs example_defs)
  have 6: "turfPolygon libAB [closeRing (map flat (currentPolygon stateAB))] = Inr [closedB]"
    by (simp add: c2) (simp add: example_defs libAB_def)
  have 7: "turfPolygon libAB (closeRing (map flat squareA) # map (map flat) []) = Inr [closedA]"
    by (simp add: a2) (simp add: example_defs libAB_def)
  have 8: "booleanContains libAB [closedA] [closedB] = Inr True"
    by (simp add: example_defs libAB_def)
  have 10: "zones stateTriangle = [] @ Rings (triangle # []) # []"
    by (simp add: stateTriangle_def)
  have c3: "closeRing (map flat (currentPolygon stateTriangle)) = closedCutter"
    by (simp add: model_defs example_defs stateTriangle_def cutter_def closedCutter_def)
  have a3: "closeRing (map flat triangle) = closedTriangle"
    by (simp add: model_defs example_defs triangle_def closedTriangle_def)
  have 11: "turfPolygon libTriangle [closeRing (map flat (currentPolygon stateTriangle))]
              = Inr [closedCutter]"
    by (simp add: c3) (simp add: example_defs libTriangle_def closedCutter_def)
  have 12: "turfPolygon libTriangle (closeRing (map flat triangle) # map (map flat) [])
              = Inr [closedTriangle]"
    by (simp add: a3) (simp add: example_defs libTriangle_def closedTriangle_def)
  have 13: "booleanContains libTriangle [closedTriangle] [closedCutter] = Inr False"
    and 14: "booleanIntersects libTriangle [closedTriangle] [closedCutter] = Inr True"
    and 15: "difference libTriangle [closedTriangle] [closedCutter] = Inr (Some (Polygon (tip # [])))"
    by (simp_all add: example_defs libTriangle_def)
  show ?thesis
    using stored_rings_by_branch [OF close_stateRaw 2 3 close_stateAB 5 6 7 8
        close_stateTriangle 10 11 12 13 14 15] c2 a2 c3
    by simp
qed

text \<open>
  The claim as written (the clipped zone stores rings rounded to two decimals) fails on
  the triangle: the difference has the vertex \<open>(1, 3/7)\<close>, which is stored as it is, and
  \<open>3/7\<close> rounded to two decimals is \<open>0.43\<close>.
\<close>

theorem clipped_rings_not_rounded_counterexample:
  "booleanContains libTriangle [closedTriangle] [closedCutter] = Inr False
   \<and> booleanIntersects libTriangle [closedTriangle] [closedCutter] = Inr True
   \<and> difference libTriangle [closedTriangle] [closedCutter] = Inr (Some (Polygon [tip]))
   \<and> handleClosePolygon libTriangle stateTriangle =
       Inr \<lparr> currentPolygon = [],
             zones = [Rings [[pt 0 0, pt 1 0, pt 1 (3 / 7), pt 0 0]]],
             history = [[], [Rings [triangle]]],
             redoStack = [] \<rparr>
   \<and> toFixed2 (py (pt 1 (3 / 7))) = 43 / 100
   \<and> toFixed2 (py (pt 1 (3 / 7))) \<noteq> py (pt 1 (3 / 7))"
  using close_stateTriangle
  by (simp add: example_defs libTriangle_def closedTriangle_def closedCutter_def tip_def
      toFixed2_def)

end
